theory Spec2Isabelle
  imports Main
begin

section \<open>Columns, schema and the members of statement_restrictions\<close>

text \<open>
  Modelled from the spec: the enum column_kind is declared in schema.hh, which is not
  among the sources. The header names \<open>partition_key\<close> and \<open>clustering_key\<close> and sends
  every other kind to the \<open>default\<close> branch of \<open>get_restrictions\<close>; the spec calls the
  remaining columns static and regular.
\<close>

datatype column_kind = partition_key | clustering_key | static_column | regular_column

text \<open>
  Modelled from the spec: column_definition is declared outside the sources; the header
  reads its member \<open>kind\<close>.
\<close>

record column_definition =
  name :: string
  kind :: column_kind
  position :: nat

text \<open>
  The header holds and receives columns as \<open>const column_definition*\<close>:
  \<open>_not_null_columns.contains(cdef)\<close> and \<open>std::find\<close> over the sorted column
  definitions compare addresses, and \<open>cdef->kind\<close> reads the object at the address. A
  pointer is an address, and the memory gives the column definition stored at an address.
  Two addresses may hold equal definitions.
\<close>

datatype column_ptr = column_addr nat

type_synonym column_memory = "column_ptr \<Rightarrow> column_definition"

text \<open>
  Modelled from the spec: the schema (section 3) is an ordered list of partition-key
  columns, an ordered list of clustering-key columns and the other columns.
\<close>

record schema =
  partition_key_columns :: "column_ptr list"
  clustering_key_columns :: "column_ptr list"
  other_columns :: "column_ptr list"

text \<open>
  The data members of class statement_restrictions that the inline member functions
  read. Member \<open>_x\<close> of the class is field \<open>m_x\<close>. The expression type of
  cql3/expr/expression.hh is the parameter \<open>'e\<close>, the class clustering_key_restrictions
  behind \<open>_clustering_columns_restrictions\<close> is the parameter \<open>'ckr\<close>.
\<close>

record ('e, 'ckr) statement_restrictions =
  m_schema :: schema
  m_partition_key_restrictions :: 'e
  m_clustering_columns_restrictions :: 'ckr
  m_new_clustering_columns_restrictions :: 'e
  m_new_nonprimary_key_restrictions :: 'e
  m_not_null_columns :: "column_ptr set"
  m_uses_secondary_indexing :: bool
  m_is_key_range :: bool
  m_has_queriable_pk_index :: bool

text \<open>
  The functions the inline bodies call and the header does not define: the free functions
  of namespace expr, \<open>needs_filtering\<close> of clustering_key_restrictions, and the member
  \<open>has_partition_key_unrestricted_components\<close>, which the header only declares. They
  are parameters of every function below.
\<close>

record ('e, 'ckr) collaborators =
  is_empty_restriction :: "'e \<Rightarrow> bool"
  has_token :: "'e \<Rightarrow> bool"
  get_sorted_column_defs :: "'e \<Rightarrow> column_ptr list"
  needs_filtering :: "'ckr \<Rightarrow> schema \<Rightarrow> bool"
  has_partition_key_unrestricted_components :: "('e, 'ckr) statement_restrictions \<Rightarrow> bool"

section \<open>The inline member functions\<close>

definition is_key_range :: "('e, 'ckr) statement_restrictions \<Rightarrow> bool" where
  "is_key_range s = m_is_key_range s"

definition uses_secondary_indexing :: "('e, 'ckr) statement_restrictions \<Rightarrow> bool" where
  "uses_secondary_indexing s = m_uses_secondary_indexing s"

definition has_token_restrictions ::
  "('e, 'ckr) collaborators \<Rightarrow> ('e, 'ckr) statement_restrictions \<Rightarrow> bool" where
  "has_token_restrictions X s = has_token X (m_partition_key_restrictions s)"

definition get_restrictions :: "('e, 'ckr) statement_restrictions \<Rightarrow> column_kind \<Rightarrow> 'e" where
  "get_restrictions s k =
     (case k of
        partition_key \<Rightarrow> m_partition_key_restrictions s
      | clustering_key \<Rightarrow> m_new_clustering_columns_restrictions s
      | _ \<Rightarrow> m_new_nonprimary_key_restrictions s)"

definition has_clustering_columns_restriction ::
  "('e, 'ckr) collaborators \<Rightarrow> ('e, 'ckr) statement_restrictions \<Rightarrow> bool" where
  "has_clustering_columns_restriction X s =
     (\<not> is_empty_restriction X (m_new_clustering_columns_restrictions s))"

definition ck_restrictions_need_filtering ::
  "('e, 'ckr) collaborators \<Rightarrow> ('e, 'ckr) statement_restrictions \<Rightarrow> bool" where
  "ck_restrictions_need_filtering X s =
     (if is_empty_restriction X (m_new_clustering_columns_restrictions s) then False
      else has_partition_key_unrestricted_components X s
        \<or> needs_filtering X (m_clustering_columns_restrictions s) (m_schema s)
        \<or> (m_uses_secondary_indexing s \<and> has_token X (m_partition_key_restrictions s)))"

text \<open>
  \<open>std::find(first, last, v)\<close> on a vector: the position of the first element equal
  to \<open>v\<close>, or the end position when there is none.
\<close>

fun std_find :: "'a list \<Rightarrow> 'a \<Rightarrow> nat" where
  "std_find [] v = 0"
| "std_find (x # xs) v = (if x = v then 0 else Suc (std_find xs v))"

definition is_restricted ::
  "('e, 'ckr) collaborators \<Rightarrow> column_memory \<Rightarrow> ('e, 'ckr) statement_restrictions
     \<Rightarrow> column_ptr \<Rightarrow> bool" where
  "is_restricted X mem s cdef =
     (if cdef \<in> m_not_null_columns s then True
      else (let restricted = get_sorted_column_defs X (get_restrictions s (kind (mem cdef)))
            in std_find restricted cdef \<noteq> length restricted))"

section \<open>Expressions and the collaborators over them\<close>

text \<open>
  Modelled from the spec: cql3/expr/expression.hh is not among the sources. By sections 2
  and 3 of the spec a predicate is a conjunction of atoms, and an atom has an operator
  tag, a left-hand side (a column, an ordered tuple of columns, or the token of the
  partition key) and a value, which may be null or a bound placeholder.
\<close>

datatype oper_t = EQ | LT | LTE | GT | GTE | IN | CONTAINS | LIKE | IS_NOT

datatype lhs_t =
    column_value column_ptr
  | tuple_constructor "column_ptr list"
  | token "column_ptr list"

datatype rhs_t = null_value | constant_value int | collection_value "int list" | bind_variable nat

record binary_operator =
  lhs :: lhs_t
  op :: oper_t
  rhs :: rhs_t

type_synonym expression = "binary_operator list"

fun lhs_columns :: "lhs_t \<Rightarrow> column_ptr list" where
  "lhs_columns (column_value c) = [c]"
| "lhs_columns (tuple_constructor cs) = cs"
| "lhs_columns (token cs) = cs"

fun is_token :: "lhs_t \<Rightarrow> bool" where
  "is_token (token cs) = True"
| "is_token (column_value c) = False"
| "is_token (tuple_constructor cs) = False"

text \<open>
  Modelled from the spec: the free functions of namespace expr that the header calls. A
  restriction is empty when the conjunction has no atom; it has a token when some atom's
  left-hand side is the token; its column definitions are the columns of its left-hand
  sides, each once, in the order of their addresses.
\<close>

fun address :: "column_ptr \<Rightarrow> nat" where
  "address (column_addr n) = n"

definition expr_is_empty_restriction :: "expression \<Rightarrow> bool" where
  "expr_is_empty_restriction e = (e = [])"

definition expr_has_token :: "expression \<Rightarrow> bool" where
  "expr_has_token e = list_ex (\<lambda>a. is_token (lhs a)) e"

definition expr_get_sorted_column_defs :: "expression \<Rightarrow> column_ptr list" where
  "expr_get_sorted_column_defs e =
     sort_key address (remdups (concat (map (\<lambda>a. lhs_columns (lhs a)) e)))"

text \<open>
  Class clustering_key_restrictions is not among the sources. The header reads its member
  \<open>expression\<close> and calls its member function \<open>needs_filtering(*_schema)\<close>; an object
  is given by the expression it holds and by what that call returns for a schema.
\<close>

record clustering_key_restrictions =
  expression :: expression
  needs_filtering_result :: "schema \<Rightarrow> bool"

text \<open>
  Modelled from the spec: \<open>has_partition_key_unrestricted_components\<close> is only declared
  in the header; its comment there says it checks if the partition key has some
  unrestricted components.
\<close>

definition sr_has_partition_key_unrestricted_components ::
  "(expression, 'ckr) statement_restrictions \<Rightarrow> bool" where
  "sr_has_partition_key_unrestricted_components s =
     list_ex (\<lambda>c. c \<notin> set (expr_get_sorted_column_defs (m_partition_key_restrictions s)))
       (partition_key_columns (m_schema s))"

definition expr_collaborators :: "(expression, clustering_key_restrictions) collaborators" where
  "expr_collaborators =
     \<lparr> is_empty_restriction = expr_is_empty_restriction,
       has_token = expr_has_token,
       get_sorted_column_defs = expr_get_sorted_column_defs,
       needs_filtering = needs_filtering_result,
       has_partition_key_unrestricted_components = sr_has_partition_key_unrestricted_components \<rparr>"

section \<open>Partition-key processing\<close>

datatype error = InvalidRequestException string

text \<open>
  Modelled from the spec: the words "has exactly one equality or set-membership
  restriction" of section 4.1, for one partition column. No code of the header counts
  the restrictions of a column.
\<close>

definition restricts_column :: "binary_operator \<Rightarrow> column_ptr \<Rightarrow> bool" where
  "restricts_column a c = (\<not> is_token (lhs a) \<and> c \<in> set (lhs_columns (lhs a)))"

definition eq_or_in :: "binary_operator \<Rightarrow> bool" where
  "eq_or_in a = (op a = EQ \<or> op a = IN)"

definition enumerated_partition_column :: "expression \<Rightarrow> column_ptr \<Rightarrow> bool" where
  "enumerated_partition_column pk c =
     (case filter (\<lambda>a. restricts_column a c) pk of
        [a] \<Rightarrow> eq_or_in a
      | _ \<Rightarrow> False)"

text \<open>
  Modelled from the spec: \<open>process_partition_key_restrictions(for_view, allow_filtering)\<close>
  is only declared in the header. By section 4.1 of the spec it decides \<open>_is_key_range\<close>:
  false only if every partition column has exactly one equality or set-membership
  restriction and no token restriction is present, true otherwise; when the restrictions
  omit some partition columns and neither filtering is allowed nor a supporting index
  exists it fails, otherwise the query is marked as using secondary indexing for the gap.
  The spec gives \<open>for_view\<close> no part in this step.
\<close>

definition process_partition_key_restrictions ::
  "bool \<Rightarrow> bool \<Rightarrow> (expression, 'ckr) statement_restrictions
     \<Rightarrow> error + (expression, 'ckr) statement_restrictions" where
  "process_partition_key_restrictions for_view allow_filtering s =
     (let pk = m_partition_key_restrictions s;
          cols = partition_key_columns (m_schema s);
          gap = (pk \<noteq> [] \<and> list_ex (\<lambda>c. c \<notin> set (expr_get_sorted_column_defs pk)) cols)
      in if gap \<and> \<not> allow_filtering \<and> \<not> m_has_queriable_pk_index s
         then Inl (InvalidRequestException ''partition key restrictions omit some columns'')
         else Inr (s\<lparr> m_is_key_range :=
                         (expr_has_token pk \<or> \<not> list_all (enumerated_partition_column pk) cols),
                       m_uses_secondary_indexing :=
                         (if gap then m_has_queriable_pk_index s
                          else m_uses_secondary_indexing s) \<rparr>))"

section \<open>Partition key ranges\<close>

text \<open>
  Modelled from the spec: how a token restriction and the restrictions of a partition
  column resolve to values under the query options is outside the spec (section 1: only
  the resolved values are consumed). The resolved start and end bound of the token
  interval, each absent or a token with its inclusivity flag, the resolved values of a
  partition column and the defined minimum token are parameters. Tokens are linearly
  ordered (section 4.3 compares them with "strictly greater" and "equal").
\<close>

record 'tok token_bound =
  bound_token :: 'tok
  inclusive :: bool

record ('tok, 'opt, 'val) range_inputs =
  minimum_token :: 'tok
  token_interval ::
    "expression \<Rightarrow> 'opt \<Rightarrow> 'tok token_bound option \<times> 'tok token_bound option"
  partition_values :: "expression \<Rightarrow> column_ptr \<Rightarrow> 'opt \<Rightarrow> 'val list"

text \<open>
  Modelled from the spec: the ranges \<open>get_partition_key_ranges\<close> returns are declared
  outside the sources. By section 4.3 a range is a token interval, one concrete partition
  key, or the unrestricted key space.
\<close>

datatype ('tok, 'val) partition_range =
    token_range "'tok token_bound option" "'tok token_bound option"
  | singular_key "'val list"
  | open_ended_both_sides

text \<open>
  Modelled from the spec: section 4.3, "if both endpoints are finite and the start token
  is strictly greater than the end token, or they are equal but either endpoint is
  exclusive, the result is the empty set of ranges, except a token bound equal to the
  defined minimum token is never treated as greater". No code of the header computes it.
\<close>

definition token_interval_is_empty ::
  "'tok::linorder \<Rightarrow> 'tok token_bound \<Rightarrow> 'tok token_bound \<Rightarrow> bool" where
  "token_interval_is_empty mn lo hi =
     (if bound_token lo = mn \<or> bound_token hi = mn then False
      else bound_token lo > bound_token hi
        \<or> (bound_token lo = bound_token hi \<and> (\<not> inclusive lo \<or> \<not> inclusive hi)))"

text \<open>
  Modelled from the spec: \<open>get_partition_key_ranges(options)\<close> is only declared in the
  header. By section 4.3: if a token restriction exists, the token interval, or no range
  when the interval is empty; otherwise, if every partition column has an equality or
  set-membership restriction, one range for each combination of the columns' values;
  otherwise the unrestricted key space.
\<close>

definition get_partition_key_ranges ::
  "('tok::linorder, 'opt, 'val) range_inputs \<Rightarrow> (expression, 'ckr) statement_restrictions
     \<Rightarrow> 'opt \<Rightarrow> ('tok, 'val) partition_range list" where
  "get_partition_key_ranges R s options =
     (let pk = m_partition_key_restrictions s;
          cols = partition_key_columns (m_schema s)
      in if expr_has_token pk
         then (case token_interval R pk options of
                 (Some lo, Some hi) \<Rightarrow>
                   (if token_interval_is_empty (minimum_token R) lo hi then []
                    else [token_range (Some lo) (Some hi)])
               | (lo, hi) \<Rightarrow> [token_range lo hi])
         else if list_all (\<lambda>c. list_ex (\<lambda>a. restricts_column a c \<and> eq_or_in a) pk) cols
         then map singular_key
                (product_lists (map (\<lambda>c. partition_values R pk c options) cols))
         else [open_ended_both_sides])"

section \<open>A table and some WHERE clauses\<close>

text \<open>
  The table of the spec's scenarios: partition key \<open>(a)\<close>, clustering key \<open>(b, c)\<close>
  and a regular column \<open>d\<close>, stored at the addresses 0 to 3. Address 9 holds a column
  definition of another schema object that equals the one of \<open>b\<close>.
\<close>

definition col_a :: column_ptr where
  "col_a = column_addr 0"

definition col_b :: column_ptr where
  "col_b = column_addr 1"

definition col_c :: column_ptr where
  "col_c = column_addr 2"

definition col_d :: column_ptr where
  "col_d = column_addr 3"

definition col_b_copy :: column_ptr where
  "col_b_copy = column_addr 9"

fun tbl_mem :: column_memory where
  "tbl_mem (column_addr n) =
     (if n = 0 then \<lparr> name = ''a'', kind = partition_key, position = 0 \<rparr>
      else if n = 1 \<or> n = 9 then \<lparr> name = ''b'', kind = clustering_key, position = 0 \<rparr>
      else if n = 2 then \<lparr> name = ''c'', kind = clustering_key, position = 1 \<rparr>
      else \<lparr> name = ''d'', kind = regular_column, position = 0 \<rparr>)"

definition tbl :: schema where
  "tbl = \<lparr> partition_key_columns = [col_a], clustering_key_columns = [col_b, col_c],
           other_columns = [col_d] \<rparr>"

text \<open>
  The restrictions of a statement on this table. In every statement below the clustering
  restrictions are absent or \<open>b = 2\<close>, a prefix of the clustering key, so the object
  behind \<open>_clustering_columns_restrictions\<close> answers false to \<open>needs_filtering\<close>.
\<close>

definition restrictions_of ::
  "expression \<Rightarrow> expression \<Rightarrow> expression \<Rightarrow> column_ptr set
     \<Rightarrow> (expression, clustering_key_restrictions) statement_restrictions" where
  "restrictions_of pk ck other not_null =
     \<lparr> m_schema = tbl,
       m_partition_key_restrictions = pk,
       m_clustering_columns_restrictions =
         \<lparr> expression = ck, needs_filtering_result = (\<lambda>sch. False) \<rparr>,
       m_new_clustering_columns_restrictions = ck,
       m_new_nonprimary_key_restrictions = other,
       m_not_null_columns = not_null,
       m_uses_secondary_indexing = False,
       m_is_key_range = False,
       m_has_queriable_pk_index = False \<rparr>"

definition a_eq_1 :: binary_operator where
  "a_eq_1 = \<lparr> lhs = column_value col_a, op = EQ, rhs = constant_value 1 \<rparr>"

definition b_eq_2 :: binary_operator where
  "b_eq_2 = \<lparr> lhs = column_value col_b, op = EQ, rhs = constant_value 2 \<rparr>"

definition token_gt_5 :: binary_operator where
  "token_gt_5 = \<lparr> lhs = token [col_a], op = GT, rhs = constant_value 5 \<rparr>"

text \<open>A statement with no WHERE clause.\<close>

definition no_where :: "(expression, clustering_key_restrictions) statement_restrictions" where
  "no_where = restrictions_of [] [] [] {}"

text \<open>\<open>WHERE b = 2\<close>: the partition key is left unrestricted.\<close>

definition where_b :: "(expression, clustering_key_restrictions) statement_restrictions" where
  "where_b = restrictions_of [] [b_eq_2] [] {}"

text \<open>\<open>WHERE a = 1 AND d IS NOT NULL\<close>.\<close>

definition where_a_d_not_null ::
  "(expression, clustering_key_restrictions) statement_restrictions" where
  "where_a_d_not_null = restrictions_of [a_eq_1] [] [] {col_d}"

text \<open>\<open>WHERE a = 1\<close>, before the partition key is processed.\<close>

definition where_a :: "(expression, clustering_key_restrictions) statement_restrictions" where
  "where_a = restrictions_of [a_eq_1] [] [] {}"

text \<open>\<open>WHERE d = 7\<close>: no key column is restricted.\<close>

definition d_eq_7 :: binary_operator where
  "d_eq_7 = \<lparr> lhs = column_value col_d, op = EQ, rhs = constant_value 7 \<rparr>"

definition where_d :: "(expression, clustering_key_restrictions) statement_restrictions" where
  "where_d = restrictions_of [] [] [d_eq_7] {}"

text \<open>\<open>WHERE token(a) > 5 AND d = 7\<close>, answered through an index on \<open>d\<close>.\<close>

definition where_token_d ::
  "(expression, clustering_key_restrictions) statement_restrictions" where
  "where_token_d =
     (restrictions_of [token_gt_5] [] [d_eq_7] {}) \<lparr> m_uses_secondary_indexing := True \<rparr>"

text \<open>\<open>WHERE token(a) > 5\<close>, before the partition key is processed.\<close>

definition where_token ::
  "(expression, clustering_key_restrictions) statement_restrictions" where
  "where_token = restrictions_of [token_gt_5] [] [] {}"

text \<open>\<open>WHERE a = 1 AND b = 2 AND d = 7\<close>.\<close>

definition where_a_b_d ::
  "(expression, clustering_key_restrictions) statement_restrictions" where
  "where_a_b_d = restrictions_of [a_eq_1] [b_eq_2] [d_eq_7] {}"

text \<open>
  An instance of the range parameters for statements whose values are all constants: the
  start bound of the token interval is the first \<open>>\<close> or \<open>>=\<close> atom on the token, the
  end bound the first \<open><\<close> or \<open><=\<close> atom, the values of a column are those of its
  equality and set-membership atoms, and the minimum token is the least 64-bit integer.
\<close>

fun constant_values :: "rhs_t \<Rightarrow> int list" where
  "constant_values null_value = []"
| "constant_values (constant_value v) = [v]"
| "constant_values (collection_value vs) = vs"
| "constant_values (bind_variable n) = []"

definition first_token_bound ::
  "oper_t \<Rightarrow> oper_t \<Rightarrow> expression \<Rightarrow> int token_bound option" where
  "first_token_bound strict incl e =
     (case filter (\<lambda>a. is_token (lhs a) \<and> (op a = strict \<or> op a = incl)) e of
        [] \<Rightarrow> None
      | a # _ \<Rightarrow>
          (case rhs a of
             constant_value v \<Rightarrow> Some \<lparr> bound_token = v, inclusive = (op a = incl) \<rparr>
           | _ \<Rightarrow> None))"

definition constant_ranges :: "(int, unit, int) range_inputs" where
  "constant_ranges =
     \<lparr> minimum_token = - (2 ^ 63),
       token_interval = (\<lambda>e options. (first_token_bound GT GTE e, first_token_bound LT LTE e)),
       partition_values = (\<lambda>e c options.
          concat (map (\<lambda>a. constant_values (rhs a))
                    (filter (\<lambda>a. restricts_column a c \<and> eq_or_in a) e))) \<rparr>"

definition token_gt_200 :: binary_operator where
  "token_gt_200 = \<lparr> lhs = token [col_a], op = GT, rhs = constant_value 200 \<rparr>"

definition token_le_200 :: binary_operator where
  "token_le_200 = \<lparr> lhs = token [col_a], op = LTE, rhs = constant_value 200 \<rparr>"

definition token_le_min :: binary_operator where
  "token_le_min = \<lparr> lhs = token [col_a], op = LTE, rhs = constant_value (- (2 ^ 63)) \<rparr>"

text \<open>\<open>WHERE token(a) > 200 AND token(a) <= 200\<close>, the interval \<open>(200, 200]\<close>.\<close>

definition where_token_200_200 ::
  "(expression, clustering_key_restrictions) statement_restrictions" where
  "where_token_200_200 = restrictions_of [token_gt_200, token_le_200] [] [] {}"

text \<open>
  \<open>WHERE token(a) > 200 AND token(a) <= m\<close> with \<open>m\<close> the minimum token: the end bound
  equals the minimum token.
\<close>

definition where_token_200_min ::
  "(expression, clustering_key_restrictions) statement_restrictions" where
  "where_token_200_min = restrictions_of [token_gt_200, token_le_min] [] [] {}"

section \<open>Properties\<close>

subsection \<open>Helper facts\<close>

lemmas table_defs = col_a_def col_b_def col_c_def col_d_def col_b_copy_def tbl_def
  restrictions_of_def a_eq_1_def b_eq_2_def d_eq_7_def token_gt_5_def

lemmas expr_defs = expr_collaborators_def expr_is_empty_restriction_def expr_has_token_def
  expr_get_sorted_column_defs_def sr_has_partition_key_unrestricted_components_def

lemma std_find_le: "std_find xs v \<le> length xs"
  by (induction xs) auto

lemma std_find_end_iff: "std_find xs v = length xs \<longleftrightarrow> v \<notin> set xs"
proof (induction xs)
  case Nil
  show ?case by simp
next
  case (Cons x xs)
  show ?case
  proof (cases "x = v")
    case True
    then show ?thesis by simp
  next
    case False
    with Cons show ?thesis by simp
  qed
qed

lemma get_restrictions_kinds:
  "get_restrictions s partition_key = m_partition_key_restrictions s"
  "get_restrictions s clustering_key = m_new_clustering_columns_restrictions s"
  "get_restrictions s static_column = m_new_nonprimary_key_restrictions s"
  "get_restrictions s regular_column = m_new_nonprimary_key_restrictions s"
  by (simp_all add: get_restrictions_def)

lemma is_restricted_unfold:
  "is_restricted X mem s cdef \<longleftrightarrow>
     cdef \<in> m_not_null_columns s
     \<or> cdef \<in> set (get_sorted_column_defs X (get_restrictions s (kind (mem cdef))))"
  by (simp add: is_restricted_def std_find_end_iff)

lemma token_interval_is_empty_iff:
  "token_interval_is_empty mn \<lparr> bound_token = S, inclusive = si \<rparr>
       \<lparr> bound_token = E, inclusive = ei \<rparr> \<longleftrightarrow>
     S \<noteq> mn \<and> E \<noteq> mn \<and> (S > E \<or> (S = E \<and> \<not> (si \<and> ei)))"
  by (simp add: token_interval_is_empty_def)

lemma enumerated_partition_column_iff:
  "enumerated_partition_column pk c \<longleftrightarrow>
     (\<exists>a. filter (\<lambda>b. restricts_column b c) pk = [a] \<and> (op a = EQ \<or> op a = IN))"
  by (auto simp add: enumerated_partition_column_def eq_or_in_def split: list.splits)

lemma process_partition_key_restrictions_frame:
  assumes "process_partition_key_restrictions for_view allow_filtering s = Inr s'"
  shows "m_schema s' = m_schema s"
    and "m_partition_key_restrictions s' = m_partition_key_restrictions s"
    and "m_is_key_range s' =
           (expr_has_token (m_partition_key_restrictions s)
            \<or> \<not> list_all (enumerated_partition_column (m_partition_key_restrictions s))
                  (partition_key_columns (m_schema s)))"
  using assms
  by (auto simp add: process_partition_key_restrictions_def Let_def split: if_splits)

subsection \<open>Token intervals\<close>

text \<open>
  C1. For a token-restricted query whose token interval resolves to the start token \<open>S\<close>
  and the end token \<open>E\<close> with inclusivity flags \<open>si\<close> and \<open>ei\<close>, the ranges computed
  by \<open>get_partition_key_ranges\<close> are empty if and only if \<open>S\<close> and \<open>E\<close> both differ
  from the minimum token and either \<open>S > E\<close>, or \<open>S = E\<close> and not both flags hold. In
  particular, when a bound equals the minimum token the result is the interval itself.
\<close>

theorem partition_key_ranges_empty_iff:
  assumes tok: "expr_has_token (m_partition_key_restrictions s)"
    and iv: "token_interval R (m_partition_key_restrictions s) options =
               (Some \<lparr> bound_token = S, inclusive = si \<rparr>,
                Some \<lparr> bound_token = E, inclusive = ei \<rparr>)"
  shows "(get_partition_key_ranges R s options = [] \<longleftrightarrow>
            S \<noteq> minimum_token R \<and> E \<noteq> minimum_token R
            \<and> (S > E \<or> (S = E \<and> \<not> (si \<and> ei))))
       \<and> (S = minimum_token R \<or> E = minimum_token R \<longrightarrow>
            get_partition_key_ranges R s options =
              [token_range (Some \<lparr> bound_token = S, inclusive = si \<rparr>)
                           (Some \<lparr> bound_token = E, inclusive = ei \<rparr>)])"
proof -
  let ?lo = "\<lparr> bound_token = S, inclusive = si \<rparr>"
  let ?hi = "\<lparr> bound_token = E, inclusive = ei \<rparr>"
  have unfold: "get_partition_key_ranges R s options =
      (if token_interval_is_empty (minimum_token R) ?lo ?hi then []
       else [token_range (Some ?lo) (Some ?hi)])"
    by (simp add: get_partition_key_ranges_def tok iv Let_def)
  show ?thesis
  proof (cases "token_interval_is_empty (minimum_token R) ?lo ?hi")
    case True
    with unfold token_interval_is_empty_iff [of "minimum_token R" S si E ei]
    show ?thesis by auto
  next
    case False
    with unfold token_interval_is_empty_iff [of "minimum_token R" S si E ei]
    show ?thesis by auto
  qed
qed

text \<open>
  The interval \<open>(200, 200]\<close> gives no range; the interval from 200 to the minimum token
  gives one range.
\<close>

theorem partition_key_ranges_empty_witness:
  "expr_has_token (m_partition_key_restrictions where_token_200_200)
   \<and> token_interval constant_ranges (m_partition_key_restrictions where_token_200_200) () =
       (Some \<lparr> bound_token = 200, inclusive = False \<rparr>,
        Some \<lparr> bound_token = 200, inclusive = True \<rparr>)
   \<and> get_partition_key_ranges constant_ranges where_token_200_200 () = []
   \<and> expr_has_token (m_partition_key_restrictions where_token_200_min)
   \<and> token_interval constant_ranges (m_partition_key_restrictions where_token_200_min) () =
       (Some \<lparr> bound_token = 200, inclusive = False \<rparr>,
        Some \<lparr> bound_token = minimum_token constant_ranges, inclusive = True \<rparr>)
   \<and> get_partition_key_ranges constant_ranges where_token_200_min () =
       [token_range (Some \<lparr> bound_token = 200, inclusive = False \<rparr>)
          (Some \<lparr> bound_token = minimum_token constant_ranges, inclusive = True \<rparr>)]"
proof -
  have t1: "expr_has_token (m_partition_key_restrictions where_token_200_200)"
    by (simp add: where_token_200_200_def restrictions_of_def expr_has_token_def
        token_gt_200_def)
  have i1: "token_interval constant_ranges (m_partition_key_restrictions where_token_200_200) ()
      = (Some \<lparr> bound_token = 200, inclusive = False \<rparr>,
         Some \<lparr> bound_token = 200, inclusive = True \<rparr>)"
    by (simp add: where_token_200_200_def restrictions_of_def constant_ranges_def
        first_token_bound_def token_gt_200_def token_le_200_def)
  have t2: "expr_has_token (m_partition_key_restrictions where_token_200_min)"
    by (simp add: where_token_200_min_def restrictions_of_def expr_has_token_def
        token_gt_200_def)
  have i2: "token_interval constant_ranges (m_partition_key_restrictions where_token_200_min) ()
      = (Some \<lparr> bound_token = 200, inclusive = False \<rparr>,
         Some \<lparr> bound_token = minimum_token constant_ranges, inclusive = True \<rparr>)"
    by (simp add: where_token_200_min_def restrictions_of_def constant_ranges_def
        first_token_bound_def token_gt_200_def token_le_min_def)
  have m: "(200 :: int) \<noteq> minimum_token constant_ranges"
    by (simp add: constant_ranges_def)
  from partition_key_ranges_empty_iff [OF t1 i1] m
  have r1: "get_partition_key_ranges constant_ranges where_token_200_200 () = []"
    by simp
  from partition_key_ranges_empty_iff [OF t2 i2]
  have r2: "get_partition_key_ranges constant_ranges where_token_200_min () =
       [token_range (Some \<lparr> bound_token = 200, inclusive = False \<rparr>)
          (Some \<lparr> bound_token = minimum_token constant_ranges, inclusive = True \<rparr>)]"
    by simp
  from t1 i1 r1 t2 i2 r2 show ?thesis by simp
qed

subsection \<open>Filtering of the clustering restrictions\<close>

text \<open>
  C9. When the clustering-column restriction bucket is empty,
  \<open>ck_restrictions_need_filtering\<close> returns false, whatever the partition key
  restrictions, the index use and the other collaborators say.
\<close>

theorem ck_filtering_false_on_empty_bucket:
  "is_empty_restriction X (m_new_clustering_columns_restrictions s)
   \<Longrightarrow> ck_restrictions_need_filtering X s = False"
  by (simp add: ck_restrictions_need_filtering_def)

text \<open>
  \<open>WHERE token(a) > 5 AND d = 7\<close> through an index combines secondary indexing with a
  token restriction, \<open>WHERE d = 7\<close> leaves the partition key unrestricted; neither has a
  clustering restriction and neither needs clustering filtering.
\<close>

theorem ck_filtering_false_on_empty_bucket_witness:
  "is_empty_restriction expr_collaborators (m_new_clustering_columns_restrictions where_token_d)
   \<and> uses_secondary_indexing where_token_d
   \<and> has_token_restrictions expr_collaborators where_token_d
   \<and> ck_restrictions_need_filtering expr_collaborators where_token_d = False
   \<and> is_empty_restriction expr_collaborators (m_new_clustering_columns_restrictions where_d)
   \<and> has_partition_key_unrestricted_components expr_collaborators where_d
   \<and> ck_restrictions_need_filtering expr_collaborators where_d = False"
proof -
  have e1: "is_empty_restriction expr_collaborators
      (m_new_clustering_columns_restrictions where_token_d)"
    by (simp add: where_token_d_def table_defs expr_defs)
  have e2: "is_empty_restriction expr_collaborators
      (m_new_clustering_columns_restrictions where_d)"
    by (simp add: where_d_def table_defs expr_defs)
  have i: "uses_secondary_indexing where_token_d"
    by (simp add: where_token_d_def restrictions_of_def uses_secondary_indexing_def)
  have t: "has_token_restrictions expr_collaborators where_token_d"
    by (simp add: where_token_d_def table_defs expr_defs has_token_restrictions_def)
  have u: "has_partition_key_unrestricted_components expr_collaborators where_d"
    by (simp add: where_d_def table_defs expr_defs)
  from ck_filtering_false_on_empty_bucket [OF e1] ck_filtering_false_on_empty_bucket [OF e2]
    e1 e2 i t u
  show ?thesis by simp
qed

text \<open>
  C3, as stated, fails: a statement with no WHERE clause leaves the partition key
  unrestricted, and \<open>ck_restrictions_need_filtering\<close> returns false for it.
\<close>

theorem ck_filtering_unrestricted_pk_counterexample:
  "has_partition_key_unrestricted_components expr_collaborators no_where
   \<and> \<not> ck_restrictions_need_filtering expr_collaborators no_where"
  by (simp add: no_where_def table_defs expr_defs ck_restrictions_need_filtering_def)

text \<open>
  C3, amended. When the clustering-column restriction bucket is not empty,
  \<open>ck_restrictions_need_filtering\<close> returns true when the clustering restrictions do not
  form the prefix-plus-trailing-range shape (\<open>needs_filtering(*_schema)\<close> of
  \<open>_clustering_columns_restrictions\<close>), or when the partition key has unrestricted
  components, or when secondary indexing is used together with a token restriction on
  the partition key.
\<close>

theorem ck_filtering_true_on_nonempty_bucket:
  assumes "\<not> is_empty_restriction X (m_new_clustering_columns_restrictions s)"
    and "needs_filtering X (m_clustering_columns_restrictions s) (m_schema s)
         \<or> has_partition_key_unrestricted_components X s
         \<or> (uses_secondary_indexing s \<and> has_token_restrictions X s)"
  shows "ck_restrictions_need_filtering X s"
  using assms
  by (auto simp add: ck_restrictions_need_filtering_def uses_secondary_indexing_def
      has_token_restrictions_def)

text \<open>\<open>WHERE b = 2\<close> restricts a clustering column and leaves the partition key open.\<close>

theorem ck_filtering_true_on_nonempty_bucket_witness:
  "\<not> is_empty_restriction expr_collaborators (m_new_clustering_columns_restrictions where_b)
   \<and> has_partition_key_unrestricted_components expr_collaborators where_b
   \<and> ck_restrictions_need_filtering expr_collaborators where_b"
proof -
  have ne: "\<not> is_empty_restriction expr_collaborators
      (m_new_clustering_columns_restrictions where_b)"
    by (simp add: where_b_def table_defs expr_defs)
  have un: "has_partition_key_unrestricted_components expr_collaborators where_b"
    by (simp add: where_b_def table_defs expr_defs)
  from ck_filtering_true_on_nonempty_bucket [OF ne] un ne show ?thesis by blast
qed

subsection \<open>Restricted columns\<close>

text \<open>
  C10. A column that is in the not-null set and in none of the three restriction
  buckets is restricted. In general \<open>is_restricted\<close> returns true exactly when the
  column's address is in the not-null set or among the column definitions of the bucket
  for the column's kind: the partition-key restrictions for a partition-key column, the
  clustering-column restrictions for a clustering-key column, and the non-primary-key
  restrictions for a static or a regular column.
\<close>

theorem is_restricted_iff:
  "(cdef \<in> m_not_null_columns s
      \<and> cdef \<notin> set (get_sorted_column_defs X (m_partition_key_restrictions s))
      \<and> cdef \<notin> set (get_sorted_column_defs X (m_new_clustering_columns_restrictions s))
      \<and> cdef \<notin> set (get_sorted_column_defs X (m_new_nonprimary_key_restrictions s))
      \<longrightarrow> is_restricted X mem s cdef)
   \<and> (kind (mem cdef) = partition_key \<longrightarrow>
        (is_restricted X mem s cdef \<longleftrightarrow>
           cdef \<in> m_not_null_columns s
           \<or> cdef \<in> set (get_sorted_column_defs X (m_partition_key_restrictions s))))
   \<and> (kind (mem cdef) = clustering_key \<longrightarrow>
        (is_restricted X mem s cdef \<longleftrightarrow>
           cdef \<in> m_not_null_columns s
           \<or> cdef \<in> set (get_sorted_column_defs X (m_new_clustering_columns_restrictions s))))
   \<and> (kind (mem cdef) = static_column \<or> kind (mem cdef) = regular_column \<longrightarrow>
        (is_restricted X mem s cdef \<longleftrightarrow>
           cdef \<in> m_not_null_columns s
           \<or> cdef \<in> set (get_sorted_column_defs X (m_new_nonprimary_key_restrictions s))))"
proof (cases "kind (mem cdef)")
  case partition_key
  then show ?thesis
    by (simp add: is_restricted_unfold get_restrictions_kinds)
next
  case clustering_key
  then show ?thesis
    by (simp add: is_restricted_unfold get_restrictions_kinds)
next
  case static_column
  then show ?thesis
    by (simp add: is_restricted_unfold get_restrictions_kinds)
next
  case regular_column
  then show ?thesis
    by (simp add: is_restricted_unfold get_restrictions_kinds)
qed

text \<open>
  In \<open>WHERE a = 1 AND d IS NOT NULL\<close> the column \<open>d\<close> is restricted through the
  not-null set alone. In \<open>WHERE a = 1 AND b = 2 AND d = 7\<close> the columns \<open>a\<close>, \<open>b\<close>
  and \<open>d\<close> are restricted, each through the bucket of its kind, and \<open>c\<close> is not; the
  definition at address 9 equals the one of \<open>b\<close> and is not restricted.
\<close>

theorem is_restricted_witness:
  "col_d \<in> m_not_null_columns where_a_d_not_null
   \<and> col_d \<notin> set (get_sorted_column_defs expr_collaborators
                    (m_partition_key_restrictions where_a_d_not_null))
   \<and> col_d \<notin> set (get_sorted_column_defs expr_collaborators
                    (m_new_clustering_columns_restrictions where_a_d_not_null))
   \<and> col_d \<notin> set (get_sorted_column_defs expr_collaborators
                    (m_new_nonprimary_key_restrictions where_a_d_not_null))
   \<and> is_restricted expr_collaborators tbl_mem where_a_d_not_null col_d
   \<and> kind (tbl_mem col_a) = partition_key
   \<and> is_restricted expr_collaborators tbl_mem where_a_b_d col_a
   \<and> kind (tbl_mem col_b) = clustering_key
   \<and> is_restricted expr_collaborators tbl_mem where_a_b_d col_b
   \<and> kind (tbl_mem col_d) = regular_column
   \<and> is_restricted expr_collaborators tbl_mem where_a_b_d col_d
   \<and> kind (tbl_mem col_c) = clustering_key
   \<and> \<not> is_restricted expr_collaborators tbl_mem where_a_b_d col_c
   \<and> tbl_mem col_b_copy = tbl_mem col_b
   \<and> \<not> is_restricted expr_collaborators tbl_mem where_a_b_d col_b_copy"
proof -
  have k: "kind (tbl_mem col_a) = partition_key" "kind (tbl_mem col_b) = clustering_key"
    "kind (tbl_mem col_c) = clustering_key" "kind (tbl_mem col_d) = regular_column"
    "kind (tbl_mem col_b_copy) = clustering_key" "tbl_mem col_b_copy = tbl_mem col_b"
    by (simp_all add: table_defs)
  have pk: "set (get_sorted_column_defs expr_collaborators
      (m_partition_key_restrictions where_a_b_d)) = {col_a}"
    and ck: "set (get_sorted_column_defs expr_collaborators
      (m_new_clustering_columns_restrictions where_a_b_d)) = {col_b}"
    and np: "set (get_sorted_column_defs expr_collaborators
      (m_new_nonprimary_key_restrictions where_a_b_d)) = {col_d}"
    and nn: "m_not_null_columns where_a_b_d = {}"
    by (simp_all add: where_a_b_d_def table_defs expr_defs)
  have pk': "set (get_sorted_column_defs expr_collaborators
      (m_partition_key_restrictions where_a_d_not_null)) = {col_a}"
    and ck': "set (get_sorted_column_defs expr_collaborators
      (m_new_clustering_columns_restrictions where_a_d_not_null)) = {}"
    and np': "set (get_sorted_column_defs expr_collaborators
      (m_new_nonprimary_key_restrictions where_a_d_not_null)) = {}"
    and nn': "m_not_null_columns where_a_d_not_null = {col_d}"
    by (simp_all add: where_a_d_not_null_def table_defs expr_defs)
  have ne: "col_d \<noteq> col_a" "col_c \<noteq> col_b" "col_b_copy \<noteq> col_b"
    by (simp_all add: table_defs)
  from is_restricted_iff [of col_d where_a_d_not_null expr_collaborators tbl_mem]
    pk' ck' np' nn' ne
  have d0: "is_restricted expr_collaborators tbl_mem where_a_d_not_null col_d"
    by simp
  from is_restricted_iff [of col_a where_a_b_d expr_collaborators tbl_mem] k pk nn
  have a1: "is_restricted expr_collaborators tbl_mem where_a_b_d col_a"
    by simp
  from is_restricted_iff [of col_b where_a_b_d expr_collaborators tbl_mem] k ck nn
  have b1: "is_restricted expr_collaborators tbl_mem where_a_b_d col_b"
    by simp
  from is_restricted_iff [of col_d where_a_b_d expr_collaborators tbl_mem] k np nn
  have d1: "is_restricted expr_collaborators tbl_mem where_a_b_d col_d"
    by simp
  from is_restricted_iff [of col_c where_a_b_d expr_collaborators tbl_mem] k ck nn ne
  have c1: "\<not> is_restricted expr_collaborators tbl_mem where_a_b_d col_c"
    by simp
  from is_restricted_iff [of col_b_copy where_a_b_d expr_collaborators tbl_mem] k ck nn ne
  have b2: "\<not> is_restricted expr_collaborators tbl_mem where_a_b_d col_b_copy"
    by simp
  from k pk' ck' np' nn' ne d0 a1 b1 d1 c1 b2 show ?thesis
    by simp
qed

subsection \<open>Key ranges\<close>

text \<open>
  C4. After the partition key has been processed, \<open>is_key_range\<close> is false exactly when
  every partition-key column has exactly one restriction, an equality or a
  set-membership one, and no token restriction is present; in every other case it is
  true.
\<close>

theorem is_key_range_decided:
  assumes "process_partition_key_restrictions for_view allow_filtering s = Inr s'"
  shows "\<not> is_key_range s' \<longleftrightarrow>
           (\<forall>c \<in> set (partition_key_columns (m_schema s')).
              \<exists>a. filter (\<lambda>b. restricts_column b c) (m_partition_key_restrictions s') = [a]
                  \<and> (op a = EQ \<or> op a = IN))
           \<and> \<not> expr_has_token (m_partition_key_restrictions s')"
  using process_partition_key_restrictions_frame [OF assms]
  by (auto simp add: is_key_range_def list_all_iff enumerated_partition_column_iff)

text \<open>
  \<open>WHERE a = 1\<close> is not a key range; \<open>WHERE token(a) > 5\<close> is one.
\<close>

theorem is_key_range_decided_witness:
  "process_partition_key_restrictions False False where_a = Inr where_a
   \<and> \<not> is_key_range where_a
   \<and> process_partition_key_restrictions False False where_token
       = Inr (where_token \<lparr> m_is_key_range := True \<rparr>)
   \<and> is_key_range (where_token \<lparr> m_is_key_range := True \<rparr>)"
proof -
  have p: "process_partition_key_restrictions False False where_a = Inr where_a"
    by (simp add: process_partition_key_restrictions_def where_a_def table_defs
        expr_has_token_def expr_get_sorted_column_defs_def enumerated_partition_column_def
        restricts_column_def eq_or_in_def Let_def)
  have f: "filter (\<lambda>b. restricts_column b col_a) (m_partition_key_restrictions where_a)
      = [a_eq_1]"
    by (simp add: where_a_def table_defs restricts_column_def)
  have t: "\<not> expr_has_token (m_partition_key_restrictions where_a)"
    by (simp add: where_a_def table_defs expr_has_token_def)
  have c: "partition_key_columns (m_schema where_a) = [col_a]"
    by (simp add: where_a_def restrictions_of_def tbl_def)
  have e: "op a_eq_1 = EQ"
    by (simp add: a_eq_1_def)
  from is_key_range_decided [OF p] f t c e have k: "\<not> is_key_range where_a"
    by simp
  have q: "process_partition_key_restrictions False False where_token
      = Inr (where_token \<lparr> m_is_key_range := True \<rparr>)"
    by (simp add: process_partition_key_restrictions_def where_token_def table_defs
        expr_has_token_def expr_get_sorted_column_defs_def Let_def)
  have t': "expr_has_token (m_partition_key_restrictions (where_token \<lparr> m_is_key_range := True \<rparr>))"
    by (simp add: where_token_def table_defs expr_has_token_def)
  from is_key_range_decided [OF q] t'
  have k': "is_key_range (where_token \<lparr> m_is_key_range := True \<rparr>)"
    by blast
  from p k q k' show ?thesis by simp
qed

end
